theory Spec2Isabelle
  imports Main "HOL-Library.Word"
begin

unbundle bit_operations_syntax

section \<open>property.hpp: the PropertyType algebra\<close>

text \<open>
  \<^verbatim>\<open>enum class PropertyType : unsigned char\<close>: a value of the enumeration is any
  8-bit pattern, the base kind in the low bits and the modifier flags in the three
  high bits.  The enumerators are the constants below.
\<close>

type_synonym PropertyType = "8 word"

definition PropertyType_Int :: PropertyType where
  "PropertyType_Int = 0"

definition PropertyType_Bool :: PropertyType where
  "PropertyType_Bool = 1"

definition PropertyType_String :: PropertyType where
  "PropertyType_String = 2"

definition PropertyType_Data :: PropertyType where
  "PropertyType_Data = 3"

definition PropertyType_Date :: PropertyType where
  "PropertyType_Date = 4"

definition PropertyType_Float :: PropertyType where
  "PropertyType_Float = 5"

definition PropertyType_Double :: PropertyType where
  "PropertyType_Double = 6"

definition PropertyType_Object :: PropertyType where
  "PropertyType_Object = 7"

definition PropertyType_LinkingObjects :: PropertyType where
  "PropertyType_LinkingObjects = 8"

definition PropertyType_Any :: PropertyType where
  "PropertyType_Any = 9"

definition PropertyType_Indexed :: PropertyType where
  "PropertyType_Indexed = 32"

definition PropertyType_Nullable :: PropertyType where
  "PropertyType_Nullable = 64"

definition PropertyType_Array :: PropertyType where
  "PropertyType_Array = 128"

definition PropertyType_Flags :: PropertyType where
  "PropertyType_Flags = PropertyType_Indexed OR PropertyType_Nullable OR PropertyType_Array"

text \<open>
  \<^verbatim>\<open>to_underlying\<close> casts to the underlying \<^verbatim>\<open>unsigned char\<close>.  The operators
  compute on the promoted integers and cast the result back to eight bits, which is
  the bitwise operation on the 8-bit word.
\<close>

definition to_underlying :: "PropertyType \<Rightarrow> 8 word" where
  "to_underlying e = e"

definition PropertyType_and :: "PropertyType \<Rightarrow> PropertyType \<Rightarrow> PropertyType" where
  "PropertyType_and a b = to_underlying a AND to_underlying b"

definition PropertyType_or :: "PropertyType \<Rightarrow> PropertyType \<Rightarrow> PropertyType" where
  "PropertyType_or a b = to_underlying a OR to_underlying b"

definition PropertyType_xor :: "PropertyType \<Rightarrow> PropertyType \<Rightarrow> PropertyType" where
  "PropertyType_xor a b = to_underlying a XOR to_underlying b"

definition PropertyType_not :: "PropertyType \<Rightarrow> PropertyType" where
  "PropertyType_not a = NOT (to_underlying a)"

text \<open>\<^verbatim>\<open>operator==\<close> and \<^verbatim>\<open>operator!=\<close> on PropertyType.\<close>

definition PropertyType_eq :: "PropertyType \<Rightarrow> PropertyType \<Rightarrow> bool" where
  "PropertyType_eq a b \<longleftrightarrow>
     to_underlying (PropertyType_and a (PropertyType_not PropertyType_Flags))
       = to_underlying (PropertyType_and b (PropertyType_not PropertyType_Flags))"

definition PropertyType_ne :: "PropertyType \<Rightarrow> PropertyType \<Rightarrow> bool" where
  "PropertyType_ne a b \<longleftrightarrow> \<not> PropertyType_eq a b"

definition is_array :: "PropertyType \<Rightarrow> bool" where
  "is_array a \<longleftrightarrow>
     to_underlying (PropertyType_and a PropertyType_Array) = to_underlying PropertyType_Array"

text \<open>
  Modelled from the spec: the macro \<^verbatim>\<open>REALM_COMPILER_HINT_UNREACHABLE\<close> of
  \<^verbatim>\<open>util/compiler.hpp\<close>, which is not among the sources.  Reaching it is a fatal
  internal-consistency failure, never a recoverable error; the model returns it as
  the value \<open>Inl Unreachable\<close>.
\<close>

datatype fatal = Unreachable

text \<open>
  A \<^verbatim>\<open>switch\<close> on a PropertyType compares the underlying values exactly (the
  overloaded \<^verbatim>\<open>operator==\<close> plays no part in it), so the two tables below are
  looked up with HOL equality on the word.
\<close>

definition string_for_property_type :: "PropertyType \<Rightarrow> fatal + string" where
  "string_for_property_type type =
     (if is_array type then
        (let k = PropertyType_and type (PropertyType_not PropertyType_Flags) in
         if k = PropertyType_String then Inr ''[string]''
         else if k = PropertyType_Int then Inr ''[int]''
         else if k = PropertyType_Bool then Inr ''[bool]''
         else if k = PropertyType_Date then Inr ''[date]''
         else if k = PropertyType_Data then Inr ''[data]''
         else if k = PropertyType_Double then Inr ''[double]''
         else if k = PropertyType_Float then Inr ''[float]''
         else if k = PropertyType_Object then Inr ''[object]''
         else if k = PropertyType_Any then Inr ''[any]''
         else if k = PropertyType_LinkingObjects then Inr ''[linking objects]''
         else Inl Unreachable)
      else if type = PropertyType_String then Inr ''string''
      else if type = PropertyType_Int then Inr ''int''
      else if type = PropertyType_Bool then Inr ''bool''
      else if type = PropertyType_Date then Inr ''date''
      else if type = PropertyType_Data then Inr ''data''
      else if type = PropertyType_Double then Inr ''double''
      else if type = PropertyType_Float then Inr ''float''
      else if type = PropertyType_Object then Inr ''object''
      else if type = PropertyType_Any then Inr ''any''
      else if type = PropertyType_LinkingObjects then Inr ''linking objects''
      else Inl Unreachable)"

section \<open>property.hpp: Property\<close>

record Property =
  name :: string
  type :: PropertyType
  object_type :: string
  link_origin_property_name :: string
  is_primary :: bool
  is_indexed :: bool
  is_nullable :: bool
  table_column :: "64 word"

definition requires_index :: "Property \<Rightarrow> bool" where
  "requires_index p \<longleftrightarrow> is_primary p \<or> is_indexed p"

definition is_indexable :: "Property \<Rightarrow> bool" where
  "is_indexable p \<longleftrightarrow>
     PropertyType_eq (type p) PropertyType_Int
     \<or> PropertyType_eq (type p) PropertyType_Bool
     \<or> PropertyType_eq (type p) PropertyType_Date
     \<or> PropertyType_eq (type p) PropertyType_String"

definition type_is_nullable :: "Property \<Rightarrow> bool" where
  "type_is_nullable p \<longleftrightarrow>
     \<not> (is_array (type p) \<and> PropertyType_eq (type p) PropertyType_Object)"

definition type_string :: "Property \<Rightarrow> fatal + string" where
  "type_string p =
     (if is_array (type p) then Inr (''array<'' @ object_type p @ ''>'')
      else if type p = PropertyType_Object then Inr (''<'' @ object_type p @ ''>'')
      else if type p = PropertyType_LinkingObjects
        then Inr (''linking objects<'' @ object_type p @ ''>'')
      else string_for_property_type (type p))"

text \<open>\<^verbatim>\<open>operator==\<close> on Property; the storage column is not compared.\<close>

definition Property_eq :: "Property \<Rightarrow> Property \<Rightarrow> bool" where
  "Property_eq lft rgt \<longleftrightarrow>
     PropertyType_eq (type lft) (type rgt)
     \<and> is_primary lft = is_primary rgt
     \<and> is_nullable lft = is_nullable rgt
     \<and> requires_index lft = requires_index rgt
     \<and> name lft = name rgt
     \<and> object_type lft = object_type rgt
     \<and> link_origin_property_name lft = link_origin_property_name rgt"

section \<open>sync/sync_permission.hpp: Permission and PermissionResults\<close>

text \<open>
  \<^verbatim>\<open>enum class AccessLevel { None, Read, Write, Admin }\<close>: the enumerators have no
  initialisers, so their underlying values count up from zero in declaration order.
\<close>

datatype AccessLevel =
  AccessLevel_None | AccessLevel_Read | AccessLevel_Write | AccessLevel_Admin

fun AccessLevel_to_underlying :: "AccessLevel \<Rightarrow> int" where
  "AccessLevel_to_underlying AccessLevel_None = 0"
| "AccessLevel_to_underlying AccessLevel_Read = 1"
| "AccessLevel_to_underlying AccessLevel_Write = 2"
| "AccessLevel_to_underlying AccessLevel_Admin = 3"

text \<open>The hand-discriminated union of \<^verbatim>\<open>Condition\<close>, as a tagged union.\<close>

datatype Condition =
  UserId (user_id: string)
| KeyValue (key_value: "string \<times> string")

record Permission =
  path :: string
  access :: AccessLevel
  condition :: Condition

text \<open>
  Modelled from the spec: the class \<^verbatim>\<open>Results\<close> (\<^verbatim>\<open>results.hpp\<close>) and the bodies
  of \<^verbatim>\<open>PermissionResults::size\<close> and \<^verbatim>\<open>PermissionResults::get\<close>
  (\<^verbatim>\<open>sync_permission.cpp\<close>), none of which is among the sources; the header only
  declares the two members and documents the exception.  The result set is the list
  of the records currently in the view, \<open>size\<close> is their count, and \<open>get\<close> fails with
  an out-of-bounds error when \<open>index \<ge> size\<close> and returns the record at the index
  otherwise.
\<close>

datatype exception = OutOfBoundsIndexException

record PermissionResults =
  m_results :: "Permission list"

definition PermissionResults_size :: "PermissionResults \<Rightarrow> nat" where
  "PermissionResults_size r = length (m_results r)"

definition PermissionResults_get :: "PermissionResults \<Rightarrow> nat \<Rightarrow> exception + Permission" where
  "PermissionResults_get r index =
     (if index \<ge> PermissionResults_size r then Inl OutOfBoundsIndexException
      else Inr (m_results r ! index))"

section \<open>Bit-level facts about the encoding\<close>

lemmas PropertyType_enumerators =
  PropertyType_Int_def PropertyType_Bool_def PropertyType_String_def
  PropertyType_Data_def PropertyType_Date_def PropertyType_Float_def
  PropertyType_Double_def PropertyType_Object_def PropertyType_LinkingObjects_def
  PropertyType_Any_def PropertyType_Indexed_def PropertyType_Nullable_def
  PropertyType_Array_def PropertyType_Flags_def

lemma Flags_mask: "PropertyType_Flags = NOT (mask 5)"
  by (simp add: PropertyType_enumerators mask_eq_exp_minus_1)

lemma low_bits_mask: "(31::8 word) = mask 5"
  by (simp add: mask_eq_exp_minus_1)

lemma base_kind_low_bits:
  "PropertyType_and t (PropertyType_not PropertyType_Flags) = t AND 31"
  by (simp add: PropertyType_and_def PropertyType_not_def to_underlying_def
      Flags_mask low_bits_mask)

lemma PropertyType_eq_low_bits: "PropertyType_eq t u = (t AND 31 = u AND 31)"
  by (simp add: PropertyType_eq_def base_kind_low_bits to_underlying_def)

lemma bit_128_iff:
  "bit (128::'a::semiring_bit_operations) n = (possible_bit TYPE('a) n \<and> n = 7)"
proof -
  have "bit (2 ^ 7 :: 'a) n = (possible_bit TYPE('a) n \<and> n = 7)"
    unfolding bit_exp_iff by auto
  then show ?thesis by simp
qed

lemma and_128_iff: "(t AND (128::8 word) = 128) = bit t 7"
proof
  assume "t AND 128 = 128"
  then have "bit (t AND 128) 7 = bit (128::8 word) 7" by simp
  then show "bit t 7" by (simp add: bit_and_iff bit_128_iff)
next
  assume top: "bit t 7"
  show "t AND 128 = 128"
  proof (rule bit_eqI)
    fix n
    show "bit (t AND 128) n = bit (128::8 word) n"
      using top by (auto simp add: bit_and_iff bit_128_iff)
  qed
qed

lemma is_array_iff_bit: "is_array t = bit t 7"
  by (simp add: is_array_def PropertyType_and_def to_underlying_def
      PropertyType_Array_def and_128_iff)

lemma toggle_flags_low_bits:
  "(PropertyType_xor t (PropertyType_and f PropertyType_Flags)) AND 31 = t AND 31"
  unfolding PropertyType_and_def PropertyType_xor_def to_underlying_def Flags_mask low_bits_mask
  by (auto simp add: bit_eq_iff bit_simps)

lemma set_flags_low_bits:
  "(PropertyType_or b (PropertyType_and f PropertyType_Flags)) AND 31 = b AND 31"
  unfolding PropertyType_and_def PropertyType_or_def to_underlying_def Flags_mask low_bits_mask
  by (auto simp add: bit_eq_iff bit_simps)

lemma no_flags_low_bits:
  assumes "PropertyType_and t PropertyType_Flags = 0"
  shows "t AND 31 = t"
proof (rule bit_eqI)
  fix n
  assume "possible_bit TYPE(8 word) n"
  moreover have "bit (t AND NOT (mask 5)) n = bit (0::8 word) n"
    using assms by (simp add: PropertyType_and_def to_underlying_def Flags_mask)
  ultimately show "bit (t AND 31) n = bit t n"
    unfolding low_bits_mask by (auto simp add: bit_simps)
qed

lemma xor_and_eq_0_iff: "((a XOR b) AND m = 0) = (a AND m = b AND (m::8 word))"
  by (metis (no_types, lifting) bit.conj_xor_distrib2 bit.xor_left_self xor.right_neutral)

lemma word8_le_9_iff:
  fixes k :: "8 word"
  shows "(k \<le> 9) = (k = 0 \<or> k = 1 \<or> k = 2 \<or> k = 3 \<or> k = 4 \<or> k = 5
                      \<or> k = 6 \<or> k = 7 \<or> k = 8 \<or> k = 9)"
    (is "?l = ?r")
proof
  assume ?l
  then have "unat k \<le> 9" by (simp add: word_le_nat_alt)
  then have "unat k = 0 \<or> unat k = 1 \<or> unat k = 2 \<or> unat k = 3 \<or> unat k = 4
      \<or> unat k = 5 \<or> unat k = 6 \<or> unat k = 7 \<or> unat k = 8 \<or> unat k = 9" by arith
  moreover have "k = of_nat n" if "unat k = n" for n
    using that by auto
  ultimately show ?r
    by (auto dest!: \<open>\<And>n. unat k = n \<Longrightarrow> k = of_nat n\<close>)
next
  assume ?r
  then show ?l by auto
qed

lemma string_for_property_type_Unreachable_is_array:
  "(string_for_property_type t = Inl Unreachable)
     = (if is_array t then 9 < t AND 31 else 9 < t)"
  unfolding string_for_property_type_def base_kind_low_bits Let_def
  by (auto simp add: PropertyType_enumerators not_le [symmetric] word8_le_9_iff
      simp del: not_le)

lemma string_for_property_type_Unreachable_iff:
  "(string_for_property_type t = Inl Unreachable)
     = (if bit t 7 then 9 < t AND 31 else 9 < t)"
  by (simp only: string_for_property_type_Unreachable_is_array is_array_iff_bit)

lemma not_array_if_no_flags:
  assumes "PropertyType_and t PropertyType_Flags = 0"
  shows "\<not> is_array t"
proof
  assume "is_array t"
  then have "bit t 7" by (simp add: is_array_iff_bit)
  moreover have "bit (t AND NOT (mask 5)) 7 = bit (0::8 word) 7"
    using assms by (simp add: PropertyType_and_def to_underlying_def Flags_mask)
  ultimately show False by (simp add: bit_simps)
qed

section \<open>PropertyType: masked equality\<close>

text \<open>
  C1.  Equality of PropertyType values looks at the base kind only.  Every value equals
  itself whatever its modifier bits; \<open>t == u\<close> holds exactly when the five low bits
  (what is left after masking out \<open>Flags\<close>) agree, and \<open>t != u\<close> exactly when they
  differ; toggling any of the Indexed, Nullable and Array bits of \<open>t\<close> gives a value
  equal to \<open>t\<close>, and two values built from one base \<open>b\<close> with any two sets of
  modifier bits are equal.
\<close>

theorem PropertyType_eq_ignores_flags:
  "PropertyType_eq t t
   \<and> PropertyType_eq t u = (t AND 31 = u AND 31)
   \<and> PropertyType_ne t u = (t AND 31 \<noteq> u AND 31)
   \<and> PropertyType_eq t (PropertyType_xor t (PropertyType_and f PropertyType_Flags))
   \<and> PropertyType_eq (PropertyType_or b (PropertyType_and f PropertyType_Flags))
        (PropertyType_or b (PropertyType_and g PropertyType_Flags))"
  by (simp add: PropertyType_ne_def PropertyType_eq_low_bits toggle_flags_low_bits
      set_flags_low_bits)

section \<open>PropertyType: rendering\<close>

text \<open>
  The fatal branch of \<open>string_for_property_type\<close> is reached exactly in two
  situations: the Array bit is set and the masked base kind is above \<open>Any\<close>, or the
  Array bit is clear and the whole value, modifier bits included, is above \<open>Any\<close>.
  This is the lemma \<open>string_for_property_type_Unreachable_iff\<close> above.
\<close>

text \<open>
  C2.  The claim is that every value whose base kind is one of the ten defined kinds
  gets a name, whatever its modifier bits.  The table for arrays is looked up with the
  masked value, but the table for non-arrays is looked up with the value as it is: for
  \<open>Nullable | Int\<close>, whose base kind \<open>Int\<close> is defined, the function reaches the fatal
  branch.
\<close>

theorem string_for_property_type_Nullable_Int:
  "string_for_property_type (PropertyType_or PropertyType_Nullable PropertyType_Int)
     = Inl Unreachable"
  by (simp add: string_for_property_type_def is_array_def PropertyType_and_def
      PropertyType_or_def to_underlying_def PropertyType_enumerators)

text \<open>
  C4.  The literals: \<open>Int\<close> renders as "int", \<open>Array | Int\<close> as "[int]", and a
  Property of type \<open>Object\<close> (no Array bit) with object type "Dog" renders as "<Dog>".
\<close>

theorem string_literals:
  "string_for_property_type PropertyType_Int = Inr ''int''
   \<and> string_for_property_type (PropertyType_or PropertyType_Array PropertyType_Int)
       = Inr ''[int]''
   \<and> type_string \<lparr>name = ''owner'', type = PropertyType_Object, object_type = ''Dog'',
         link_origin_property_name = '''', is_primary = False, is_indexed = False,
         is_nullable = False, table_column = - 1\<rparr> = Inr ''<Dog>''"
  by (simp add: type_string_def string_for_property_type_def is_array_def
      PropertyType_and_def PropertyType_or_def PropertyType_not_def to_underlying_def
      PropertyType_enumerators)

section \<open>Property: type_string and type_is_nullable\<close>

text \<open>
  C3, as amended.  \<open>type_string\<close> returns "array<T>" whenever the Array bit is set,
  whatever the base kind; for a type with no modifier bit it returns "<T>" when the kind
  is \<open>Object\<close>, "linking objects<T>" when the kind is \<open>LinkingObjects\<close>, and the result
  of \<open>string_for_property_type\<close> otherwise (\<open>T\<close> is the object type).
\<close>

theorem type_string_cases:
  "(bit (type p) 7 \<longrightarrow> type_string p = Inr (''array<'' @ object_type p @ ''>''))
   \<and> (PropertyType_and (type p) PropertyType_Flags = 0 \<longrightarrow>
        type_string p =
          (if PropertyType_eq (type p) PropertyType_Object
             then Inr (''<'' @ object_type p @ ''>'')
           else if PropertyType_eq (type p) PropertyType_LinkingObjects
             then Inr (''linking objects<'' @ object_type p @ ''>'')
           else string_for_property_type (type p)))"
proof (intro conjI impI)
  assume "bit (type p) 7"
  then show "type_string p = Inr (''array<'' @ object_type p @ ''>'')"
    by (simp add: type_string_def is_array_iff_bit)
next
  assume plain: "PropertyType_and (type p) PropertyType_Flags = 0"
  have low: "type p AND 31 = type p"
    using plain by (rule no_flags_low_bits)
  have "\<not> is_array (type p)"
    using plain by (rule not_array_if_no_flags)
  then show "type_string p =
          (if PropertyType_eq (type p) PropertyType_Object
             then Inr (''<'' @ object_type p @ ''>'')
           else if PropertyType_eq (type p) PropertyType_LinkingObjects
             then Inr (''linking objects<'' @ object_type p @ ''>'')
           else string_for_property_type (type p))"
    by (simp add: type_string_def PropertyType_eq_low_bits low
        PropertyType_Object_def PropertyType_LinkingObjects_def)
qed

text \<open>
  C3, witness of the amended statement: an array of \<open>Object\<close>, a \<open>LinkingObjects\<close>
  property and a \<open>Date\<close> property, the last two without modifier bits.
\<close>

theorem type_string_cases_witness:
  "type_string \<lparr>name = ''dogs'', type = PropertyType_or PropertyType_Array PropertyType_Object,
       object_type = ''Dog'', link_origin_property_name = '''', is_primary = False,
       is_indexed = False, is_nullable = False, table_column = 0\<rparr> = Inr ''array<Dog>''
   \<and> type_string \<lparr>name = ''owners'', type = PropertyType_LinkingObjects,
       object_type = ''Person'', link_origin_property_name = ''dog'', is_primary = False,
       is_indexed = False, is_nullable = False, table_column = 1\<rparr>
       = Inr ''linking objects<Person>''
   \<and> type_string \<lparr>name = ''born'', type = PropertyType_Date,
       object_type = '''', link_origin_property_name = '''', is_primary = False,
       is_indexed = False, is_nullable = False, table_column = 2\<rparr>
       = Inr ''date''"
  using
    type_string_cases [of "\<lparr>name = ''dogs'',
       type = PropertyType_or PropertyType_Array PropertyType_Object,
       object_type = ''Dog'', link_origin_property_name = '''', is_primary = False,
       is_indexed = False, is_nullable = False, table_column = 0\<rparr>"]
    type_string_cases [of "\<lparr>name = ''owners'', type = PropertyType_LinkingObjects,
       object_type = ''Person'', link_origin_property_name = ''dog'', is_primary = False,
       is_indexed = False, is_nullable = False, table_column = 1\<rparr>"]
    type_string_cases [of "\<lparr>name = ''born'', type = PropertyType_Date,
       object_type = '''', link_origin_property_name = '''', is_primary = False,
       is_indexed = False, is_nullable = False, table_column = 2\<rparr>"]
  by (simp add: string_for_property_type_def is_array_def PropertyType_eq_def
      PropertyType_and_def PropertyType_or_def PropertyType_not_def to_underlying_def
      PropertyType_enumerators)

text \<open>
  C3, counterexample to the claim as stated.  \<open>Array | Int\<close> is an array, but not of
  objects, and its kind is neither \<open>Object\<close> nor \<open>LinkingObjects\<close>; the claim makes
  \<open>type_string\<close> return the canonical name "[int]" of \<open>string_for_property_type\<close>,
  whereas it returns "array<>" (the object type of such a property is empty).
\<close>

theorem type_string_array_of_Int:
  "is_array (PropertyType_or PropertyType_Array PropertyType_Int)
   \<and> \<not> PropertyType_eq (PropertyType_or PropertyType_Array PropertyType_Int) PropertyType_Object
   \<and> \<not> PropertyType_eq (PropertyType_or PropertyType_Array PropertyType_Int)
         PropertyType_LinkingObjects
   \<and> string_for_property_type (PropertyType_or PropertyType_Array PropertyType_Int)
       = Inr ''[int]''
   \<and> type_string \<lparr>name = ''scores'',
         type = PropertyType_or PropertyType_Array PropertyType_Int, object_type = '''',
         link_origin_property_name = '''', is_primary = False, is_indexed = False,
         is_nullable = False, table_column = - 1\<rparr> = Inr ''array<>''
   \<and> type_string \<lparr>name = ''scores'',
         type = PropertyType_or PropertyType_Array PropertyType_Int, object_type = '''',
         link_origin_property_name = '''', is_primary = False, is_indexed = False,
         is_nullable = False, table_column = - 1\<rparr>
       \<noteq> string_for_property_type (PropertyType_or PropertyType_Array PropertyType_Int)"
  by (simp add: type_string_def string_for_property_type_def is_array_def
      PropertyType_eq_def PropertyType_and_def PropertyType_or_def PropertyType_not_def
      to_underlying_def PropertyType_enumerators)

text \<open>
  C6.  \<open>type_is_nullable\<close> is false exactly when the Array bit is set and the base kind
  is \<open>Object\<close>, and true for every other type, whatever the other modifier bits.
\<close>

theorem type_is_nullable_iff:
  "type_is_nullable p = (\<not> (bit (type p) 7 \<and> type p AND 31 = 7))"
  by (simp add: type_is_nullable_def is_array_iff_bit PropertyType_eq_low_bits
      PropertyType_Object_def)

section \<open>Property: equality\<close>

text \<open>
  C5.  Two properties with the same name, type, object type, link origin property name
  and the same three flags are equal, whatever their storage columns; two properties
  with different names are not equal.
\<close>

theorem Property_eq_ignores_table_column:
  "(name p = name q \<and> type p = type q \<and> object_type p = object_type q
      \<and> link_origin_property_name p = link_origin_property_name q
      \<and> is_primary p = is_primary q \<and> is_indexed p = is_indexed q
      \<and> is_nullable p = is_nullable q
      \<longrightarrow> Property_eq p q)
   \<and> (name p \<noteq> name q \<longrightarrow> \<not> Property_eq p q)"
  by (simp add: Property_eq_def requires_index_def PropertyType_eq_def)

text \<open>
  C5, witness: the same property at columns 0 and 3, and the property renamed.
\<close>

theorem Property_eq_ignores_table_column_witness:
  "Property_eq
     \<lparr>name = ''age'', type = PropertyType_Int, object_type = '''',
        link_origin_property_name = '''', is_primary = False, is_indexed = True,
        is_nullable = False, table_column = 0\<rparr>
     \<lparr>name = ''age'', type = PropertyType_Int, object_type = '''',
        link_origin_property_name = '''', is_primary = False, is_indexed = True,
        is_nullable = False, table_column = 3\<rparr>
   \<and> \<not> Property_eq
     \<lparr>name = ''age'', type = PropertyType_Int, object_type = '''',
        link_origin_property_name = '''', is_primary = False, is_indexed = True,
        is_nullable = False, table_column = 0\<rparr>
     \<lparr>name = ''years'', type = PropertyType_Int, object_type = '''',
        link_origin_property_name = '''', is_primary = False, is_indexed = True,
        is_nullable = False, table_column = 0\<rparr>"
  using
    Property_eq_ignores_table_column [of
      "\<lparr>name = ''age'', type = PropertyType_Int, object_type = '''',
        link_origin_property_name = '''', is_primary = False, is_indexed = True,
        is_nullable = False, table_column = 0\<rparr>"
      "\<lparr>name = ''age'', type = PropertyType_Int, object_type = '''',
        link_origin_property_name = '''', is_primary = False, is_indexed = True,
        is_nullable = False, table_column = 3\<rparr>"]
    Property_eq_ignores_table_column [of
      "\<lparr>name = ''age'', type = PropertyType_Int, object_type = '''',
        link_origin_property_name = '''', is_primary = False, is_indexed = True,
        is_nullable = False, table_column = 0\<rparr>"
      "\<lparr>name = ''years'', type = PropertyType_Int, object_type = '''',
        link_origin_property_name = '''', is_primary = False, is_indexed = True,
        is_nullable = False, table_column = 0\<rparr>"]
  by simp

text \<open>
  C10.  Property equality does not see the modifier bits of the type, nor
  \<open>is_indexed\<close> beyond \<open>requires_index\<close>: two properties that agree on name, object
  type, link origin property name, \<open>is_nullable\<close> and \<open>is_primary\<close>, whose types differ
  at most in the Indexed, Nullable and Array bits, and whose \<open>is_indexed\<close> flags agree or
  are both overridden by \<open>is_primary\<close>, are equal.
\<close>

theorem Property_eq_ignores_flags_and_index_detail:
  "name p = name q \<and> object_type p = object_type q
     \<and> link_origin_property_name p = link_origin_property_name q
     \<and> is_nullable p = is_nullable q \<and> is_primary p = is_primary q
     \<and> PropertyType_and (PropertyType_xor (type p) (type q))
          (PropertyType_not PropertyType_Flags) = 0
     \<and> (is_indexed p = is_indexed q \<or> (is_primary p \<and> is_primary q))
   \<longrightarrow> Property_eq p q"
proof
  assume h: "name p = name q \<and> object_type p = object_type q
     \<and> link_origin_property_name p = link_origin_property_name q
     \<and> is_nullable p = is_nullable q \<and> is_primary p = is_primary q
     \<and> PropertyType_and (PropertyType_xor (type p) (type q))
          (PropertyType_not PropertyType_Flags) = 0
     \<and> (is_indexed p = is_indexed q \<or> (is_primary p \<and> is_primary q))"
  then have "(type p XOR type q) AND 31 = 0"
    by (simp add: base_kind_low_bits PropertyType_xor_def to_underlying_def)
  then have "PropertyType_eq (type p) (type q)"
    by (simp add: PropertyType_eq_low_bits xor_and_eq_0_iff)
  moreover have "requires_index p = requires_index q"
    using h by (auto simp add: requires_index_def)
  ultimately show "Property_eq p q"
    using h by (simp add: Property_eq_def)
qed

text \<open>
  C10, witness: a primary key of type \<open>Int\<close>, not indexed, against the same primary key
  of type \<open>Int | Indexed | Array\<close>, indexed, at another column.
\<close>

theorem Property_eq_ignores_flags_and_index_detail_witness:
  "Property_eq
     \<lparr>name = ''id'', type = PropertyType_Int, object_type = '''',
        link_origin_property_name = '''', is_primary = True, is_indexed = False,
        is_nullable = False, table_column = 0\<rparr>
     \<lparr>name = ''id'',
        type = PropertyType_or PropertyType_Int
                 (PropertyType_or PropertyType_Indexed PropertyType_Array),
        object_type = '''',
        link_origin_property_name = '''', is_primary = True, is_indexed = True,
        is_nullable = False, table_column = 2\<rparr>"
  using
    Property_eq_ignores_flags_and_index_detail [of
     "\<lparr>name = ''id'', type = PropertyType_Int, object_type = '''',
        link_origin_property_name = '''', is_primary = True, is_indexed = False,
        is_nullable = False, table_column = 0\<rparr>"
     "\<lparr>name = ''id'',
        type = PropertyType_or PropertyType_Int
                 (PropertyType_or PropertyType_Indexed PropertyType_Array),
        object_type = '''',
        link_origin_property_name = '''', is_primary = True, is_indexed = True,
        is_nullable = False, table_column = 2\<rparr>"]
  by (simp add: PropertyType_and_def PropertyType_or_def PropertyType_xor_def
      PropertyType_not_def to_underlying_def PropertyType_enumerators)

section \<open>Permission: access levels\<close>

text \<open>
  C7.  The access levels are strictly increasing in their underlying values,
  \<open>None < Read < Write < Admin\<close>, and any two levels are comparable, so the order is
  total.  A check that requires at least some level is a comparison of underlying
  values: whatever a level \<open>a\<close> satisfies, every level \<open>b\<close> at or above \<open>a\<close> satisfies
  too, and in particular a \<open>Write\<close> grant satisfies a check that requires \<open>Read\<close>.
\<close>

theorem AccessLevel_ordered:
  "AccessLevel_to_underlying AccessLevel_None < AccessLevel_to_underlying AccessLevel_Read
   \<and> AccessLevel_to_underlying AccessLevel_Read < AccessLevel_to_underlying AccessLevel_Write
   \<and> AccessLevel_to_underlying AccessLevel_Write < AccessLevel_to_underlying AccessLevel_Admin
   \<and> (AccessLevel_to_underlying a < AccessLevel_to_underlying b \<or> a = b
        \<or> AccessLevel_to_underlying b < AccessLevel_to_underlying a)
   \<and> (AccessLevel_to_underlying a \<le> AccessLevel_to_underlying b
        \<and> AccessLevel_to_underlying required \<le> AccessLevel_to_underlying a
        \<longrightarrow> AccessLevel_to_underlying required \<le> AccessLevel_to_underlying b)
   \<and> AccessLevel_to_underlying AccessLevel_Read \<le> AccessLevel_to_underlying AccessLevel_Write"
  by (cases a; cases b) simp_all

text \<open>
  C7, witness: a requirement of \<open>None\<close> met by \<open>Read\<close> is met by \<open>Write\<close>.
\<close>

theorem AccessLevel_ordered_witness:
  "AccessLevel_to_underlying AccessLevel_Read \<le> AccessLevel_to_underlying AccessLevel_Write
   \<and> AccessLevel_to_underlying AccessLevel_None \<le> AccessLevel_to_underlying AccessLevel_Read
   \<and> AccessLevel_to_underlying AccessLevel_None \<le> AccessLevel_to_underlying AccessLevel_Write"
  using AccessLevel_ordered [of AccessLevel_Read AccessLevel_Write AccessLevel_None]
  by simp

section \<open>PermissionResults: indexed access\<close>

text \<open>
  C8.  \<open>get\<close> fails with the out-of-bounds exception exactly when the index is at
  least \<open>size\<close>, and for every index below \<open>size\<close> it returns a Permission, one of
  the records of the result set.
\<close>

theorem PermissionResults_get_bounds:
  "(PermissionResults_get r i = Inl OutOfBoundsIndexException) = (PermissionResults_size r \<le> i)
   \<and> (i < PermissionResults_size r \<longrightarrow>
        (\<exists>p. PermissionResults_get r i = Inr p \<and> p \<in> set (m_results r)))"
  by (simp add: PermissionResults_get_def PermissionResults_size_def)

text \<open>
  C8, witness: a result set of two records, read at index 1 and at index 2.
\<close>

theorem PermissionResults_get_bounds_witness:
  "PermissionResults_get
     \<lparr>m_results = [\<lparr>path = ''/A/Data'', access = AccessLevel_Write, condition = UserId ''userB''\<rparr>,
                   \<lparr>path = ''/A/Logs'', access = AccessLevel_Read,
                      condition = KeyValue (''team'', ''ops'')\<rparr>]\<rparr> 1
     = Inr \<lparr>path = ''/A/Logs'', access = AccessLevel_Read, condition = KeyValue (''team'', ''ops'')\<rparr>
   \<and> PermissionResults_get
     \<lparr>m_results = [\<lparr>path = ''/A/Data'', access = AccessLevel_Write, condition = UserId ''userB''\<rparr>,
                   \<lparr>path = ''/A/Logs'', access = AccessLevel_Read,
                      condition = KeyValue (''team'', ''ops'')\<rparr>]\<rparr> 2
     = Inl OutOfBoundsIndexException"
  using
    PermissionResults_get_bounds [of
      "\<lparr>m_results = [\<lparr>path = ''/A/Data'', access = AccessLevel_Write, condition = UserId ''userB''\<rparr>,
                   \<lparr>path = ''/A/Logs'', access = AccessLevel_Read,
                      condition = KeyValue (''team'', ''ops'')\<rparr>]\<rparr>" 1]
    PermissionResults_get_bounds [of
      "\<lparr>m_results = [\<lparr>path = ''/A/Data'', access = AccessLevel_Write, condition = UserId ''userB''\<rparr>,
                   \<lparr>path = ''/A/Logs'', access = AccessLevel_Read,
                      condition = KeyValue (''team'', ''ops'')\<rparr>]\<rparr>" 2]
  by (simp add: PermissionResults_get_def PermissionResults_size_def)

end
